theory Spec2Isabelle
  imports Main
begin

section \<open>Conventions of the embedding\<close>

text \<open>
  The C type \<open>int\<close> is modelled by the unbounded type \<open>int\<close>: every quantity of the
  game (grid coordinates, delays, the number of balls, seconds) stays far below the
  range of a machine integer. The only counter that grows without bound is the minutes
  of the clock, which overflow after \<open>3000 * 2 ^ 31\<close> ticks, more than four thousand
  years of play; the theorem about the clock is stated for fewer ticks than that.

  C's \<open>/\<close> and \<open>%\<close> truncate towards zero, unlike \<open>div\<close> and \<open>mod\<close> of HOL.
  \<open>c_div\<close> and \<open>c_rem\<close> are the C operators for a divisor that is not zero; a
  division by zero traps in C, and the one place of the program where the divisor is
  not a literal, \<open>rand_number\<close>, checks for it and returns \<open>None\<close>.
\<close>

definition c_div :: "int \<Rightarrow> int \<Rightarrow> int" where
  "c_div a b = sgn a * sgn b * (\<bar>a\<bar> div \<bar>b\<bar>)"

definition c_rem :: "int \<Rightarrow> int \<Rightarrow> int" where
  "c_rem a b = sgn a * (\<bar>a\<bar> mod \<bar>b\<bar>)"

section \<open>The terminal\<close>

text \<open>
  The program draws through curses. A call that writes to the terminal is recorded as
  an event; a function of the program returns the events it emits, in order.
\<close>

datatype event =
    Move int int                    \<comment> \<open>\<open>move(y, x)\<close>\<close>
  | Addch char                      \<comment> \<open>\<open>addch(ch)\<close>\<close>
  | Mvaddch int int char            \<comment> \<open>\<open>mvaddch(y, x, ch)\<close>\<close>
  | Print_time int int              \<comment> \<open>\<open>printw(TIME_FORMAT, mins, secs)\<close>\<close>
  | Print_balls int int int         \<comment> \<open>\<open>mvprintw(y, x, "BALLS LEFT: %2d", balls)\<close>\<close>
  | Print_lasted int int int int    \<comment> \<open>\<open>mvprintw(y, x, "You lasted %.2d:%.2d", mins, secs)\<close>\<close>
  | Standout
  | Standend
  | Park_cursor                     \<comment> \<open>\<open>park_cursor()\<close>\<close>
  | Refresh                         \<comment> \<open>\<open>refresh()\<close>\<close>
  | Sleep nat                       \<comment> \<open>\<open>sleep(n)\<close>\<close>
  | Set_ticker int                  \<comment> \<open>\<open>set_ticker(ms)\<close>\<close>
  | Endwin                          \<comment> \<open>\<open>endwin()\<close>\<close>
  | Stderr string                   \<comment> \<open>\<open>fprintf(stderr, ...)\<close>\<close>

section \<open>Constants of the headers\<close>

definition TICKS_PER_SEC :: int where "TICKS_PER_SEC = 50"   \<comment> \<open>clock.h\<close>
definition MINUTE :: int where "MINUTE = 60"                 \<comment> \<open>clock.c\<close>
definition BORDER :: int where "BORDER = 3"                  \<comment> \<open>court.h\<close>
definition NUM_BALLS :: int where "NUM_BALLS = 3"            \<comment> \<open>pong.h\<close>
definition BLANK :: char where "BLANK = CHR '' ''"           \<comment> \<open>pong.h\<close>
definition LOSE :: int where "LOSE = - 1"                    \<comment> \<open>ball.h\<close>
definition NO_CONTACT :: int where "NO_CONTACT = 0"          \<comment> \<open>ball.h\<close>
definition CONTACT :: int where "CONTACT = 1"                \<comment> \<open>ball.h\<close>
definition BOUNCE :: int where "BOUNCE = 1"                  \<comment> \<open>ball.h\<close>
definition MAX_DELAY :: int where "MAX_DELAY = 10"           \<comment> \<open>ball.c\<close>
definition MIN_LINES :: int where "MIN_LINES = 11"           \<comment> \<open>pong.c\<close>
definition MIN_COLS :: int where "MIN_COLS = 40"             \<comment> \<open>pong.c\<close>
definition EXIT_MSG_LEN :: int where "EXIT_MSG_LEN = 16"     \<comment> \<open>pong.c\<close>
definition ROW_SYMBOL :: char where "ROW_SYMBOL = CHR ''-''" \<comment> \<open>court.c\<close>
definition COL_SYMBOL :: char where "COL_SYMBOL = CHR ''|''" \<comment> \<open>court.c\<close>
definition TIME_LEN :: int where "TIME_LEN = 17"             \<comment> \<open>court.c\<close>
definition PADDLE_SYMBOL :: char where "PADDLE_SYMBOL = CHR ''#''"  \<comment> \<open>\<open>DFL_SYMBOL\<close> of paddle.c\<close>
definition BALL_SYMBOL :: char where "BALL_SYMBOL = CHR ''O''"      \<comment> \<open>\<open>DFL_SYMBOL\<close> of ball.c\<close>

lemmas pong_consts =
  TICKS_PER_SEC_def MINUTE_def BORDER_def NUM_BALLS_def BLANK_def LOSE_def NO_CONTACT_def
  CONTACT_def BOUNCE_def MAX_DELAY_def MIN_LINES_def MIN_COLS_def EXIT_MSG_LEN_def
  ROW_SYMBOL_def COL_SYMBOL_def TIME_LEN_def PADDLE_SYMBOL_def BALL_SYMBOL_def

section \<open>The clock and the court (clock.c, court.c)\<close>

record timer =
  mins :: int
  secs :: int
  ticks :: int

record ppcourt =
  c_top :: int
  c_right :: int
  c_bot :: int
  c_left :: int

definition court_init :: "int \<Rightarrow> int \<Rightarrow> int \<Rightarrow> int \<Rightarrow> ppcourt" where
  "court_init tp rt bt lf = \<lparr>c_top = tp, c_right = rt, c_bot = bt, c_left = lf\<rparr>"

definition get_right_edge :: "ppcourt \<Rightarrow> int" where "get_right_edge c = c_right c"
definition get_left_edge :: "ppcourt \<Rightarrow> int" where "get_left_edge c = c_left c"
definition get_top_edge :: "ppcourt \<Rightarrow> int" where "get_top_edge c = c_top c"
definition get_bot_edge :: "ppcourt \<Rightarrow> int" where "get_bot_edge c = c_bot c"

lemmas edge_defs = get_right_edge_def get_left_edge_def get_top_edge_def get_bot_edge_def

definition clock_init :: timer where
  "clock_init = \<lparr>mins = 0, secs = 0, ticks = 0\<rparr>"

definition get_mins :: "timer \<Rightarrow> int" where "get_mins t = mins t"
definition get_secs :: "timer \<Rightarrow> int" where "get_secs t = secs t"

definition print_row :: "int \<Rightarrow> int \<Rightarrow> int \<Rightarrow> event list" where
  "print_row row start end = Move row start # map (\<lambda>i. Addch ROW_SYMBOL) [start..end]"

definition print_col :: "int \<Rightarrow> int \<Rightarrow> int \<Rightarrow> event list" where
  "print_col col start end = map (\<lambda>i. Mvaddch i col COL_SYMBOL) [start..end - 1]"

definition print_time :: "ppcourt \<Rightarrow> timer \<Rightarrow> event list" where
  "print_time c t =
     [Move (get_top_edge c - 1) (get_right_edge c - TIME_LEN),
      Print_time (get_mins t) (get_secs t), Park_cursor, Refresh]"

definition print_balls :: "ppcourt \<Rightarrow> int \<Rightarrow> event list" where
  "print_balls c balls = [Print_balls (c_top c - 1) (c_left c) balls, Park_cursor, Refresh]"

definition print_court :: "ppcourt \<Rightarrow> timer \<Rightarrow> int \<Rightarrow> event list" where
  "print_court c t balls =
     print_row (c_top c) (c_left c) (c_right c) @
     print_col (c_left c) (c_top c + 1) (c_bot c) @
     print_row (c_bot c) (c_left c) (c_right c) @
     print_balls c balls @ print_time c t"

text \<open>
  \<open>clock_tick\<close>: \<open>++clock.ticks\<close> is stored before the comparison, and so is
  \<open>++clock.secs\<close>; \<open>print_time\<close> reads the clock after \<open>ticks\<close> is reset.
\<close>

definition clock_tick :: "ppcourt \<Rightarrow> timer \<Rightarrow> timer \<times> event list" where
  "clock_tick c t =
     (let t1 = t\<lparr>ticks := ticks t + 1\<rparr> in
      if ticks t1 = TICKS_PER_SEC then
        (let t2 = t1\<lparr>secs := secs t1 + 1\<rparr>;
             t3 = (if secs t2 = MINUTE then t2\<lparr>secs := 0, mins := mins t2 + 1\<rparr> else t2);
             t4 = t3\<lparr>ticks := 0\<rparr>
         in (t4, print_time c t4))
      else (t1, []))"

text \<open>The clock after \<open>n\<close> calls of \<open>clock_tick\<close>.\<close>

fun clock_ticks :: "ppcourt \<Rightarrow> nat \<Rightarrow> timer \<Rightarrow> timer" where
  "clock_ticks c 0 t = t"
| "clock_ticks c (Suc n) t = fst (clock_tick c (clock_ticks c n t))"

section \<open>The paddle (paddle.c)\<close>

record pppaddle =
  pad_char :: char
  pad_top :: int
  pad_bot :: int
  pad_col :: int
  pad_mintop :: int
  pad_maxbot :: int

text \<open>
  A function that may end the process returns an \<open>outcome\<close>: \<open>Exit n evs\<close> is
  \<open>exit(n)\<close> after the events \<open>evs\<close>, \<open>Return x\<close> is the normal return.
\<close>

datatype 'a outcome = Exit int "event list" | Return 'a

text \<open>\<open>wrap_up\<close> of pong.c frees the two objects, stops the ticker and closes curses.\<close>

definition wrap_up :: "event list" where
  "wrap_up = [Set_ticker 0, Endwin]"

definition draw_paddle :: "pppaddle \<Rightarrow> event list" where
  "draw_paddle pp =
     map (\<lambda>i. Mvaddch i (pad_col pp) (pad_char pp)) [pad_top pp..pad_bot pp] @
     [Park_cursor, Refresh]"

text \<open>
  \<open>paddle_init\<close> assigns every field of the structure, so the contents of the fresh
  allocation do not matter. \<open>lines\<close> is the value of the curses variable \<open>LINES\<close>.
\<close>

definition paddle_init :: "int \<Rightarrow> ppcourt \<Rightarrow> int \<Rightarrow> int \<Rightarrow> pppaddle \<times> event list" where
  "paddle_init lines c tp height =
     (let pp = \<lparr>pad_char = PADDLE_SYMBOL,
                pad_top = tp,
                pad_bot = tp + height - 1,
                pad_col = get_right_edge c,
                pad_mintop = BORDER,
                pad_maxbot = lines - BORDER - 1\<rparr>
      in (pp, draw_paddle pp))"

text \<open>\<open>alloc\<close> tells whether \<open>malloc\<close> returned a block.\<close>

definition new_paddle :: "int \<Rightarrow> ppcourt \<Rightarrow> bool \<Rightarrow> (pppaddle \<times> event list) outcome" where
  "new_paddle lines c alloc =
     (if \<not> alloc then
        Exit 1 (wrap_up @ [Stderr ''./pong: Couldn't allocate memory for a paddle.''])
      else
        (let court_height = get_bot_edge c - get_top_edge c - 1;
             paddle_height = c_div court_height 3;
             paddle_top = c_div lines 2 - c_div paddle_height 2
         in Return (paddle_init lines c paddle_top paddle_height)))"

definition paddle_up :: "pppaddle \<Rightarrow> pppaddle \<times> event list" where
  "paddle_up pp =
     (if pad_top pp - 1 > pad_mintop pp then
        (let p1 = pp\<lparr>pad_top := pad_top pp - 1\<rparr>;
             p2 = p1\<lparr>pad_bot := pad_bot p1 - 1\<rparr>
         in (p2, [Mvaddch (pad_bot pp) (pad_col pp) BLANK,
                  Mvaddch (pad_top p2) (pad_col p2) PADDLE_SYMBOL, Park_cursor, Refresh]))
      else (pp, []))"

definition paddle_down :: "pppaddle \<Rightarrow> pppaddle \<times> event list" where
  "paddle_down pp =
     (if pad_bot pp + 1 < pad_maxbot pp then
        (let p1 = pp\<lparr>pad_top := pad_top pp + 1\<rparr>;
             p2 = p1\<lparr>pad_bot := pad_bot p1 + 1\<rparr>
         in (p2, [Mvaddch (pad_top pp) (pad_col pp) BLANK,
                  Mvaddch (pad_bot p2) (pad_col p2) PADDLE_SYMBOL, Park_cursor, Refresh]))
      else (pp, []))"

definition paddle_contact :: "int \<Rightarrow> pppaddle \<Rightarrow> int" where
  "paddle_contact y pp = (if y \<ge> pad_top pp \<and> y \<le> pad_bot pp then CONTACT else NO_CONTACT)"

section \<open>The ball (ball.c)\<close>

record ppball =
  remain :: int
  x_pos :: int
  y_pos :: int
  x_dir :: int
  y_dir :: int
  x_delay :: int
  y_delay :: int
  x_count :: int
  y_count :: int
  symbol :: char

text \<open>
  The state of the C library's generator is the sequence of the values that the next
  calls of \<open>rand()\<close> return, each between 0 and \<open>RAND_MAX\<close>; \<open>rand\<close> takes the first.
\<close>

type_synonym rand_state = "nat \<Rightarrow> nat"

definition rand :: "rand_state \<Rightarrow> nat \<times> rand_state" where
  "rand g = (g 0, \<lambda>i. g (Suc i))"

text \<open>\<open>rand_number mn mx\<close> is \<open>rand_number(min, max)\<close>; \<open>rand() % (max - min)\<close> traps when
  \<open>max = min\<close>, and the result is \<open>None\<close>.\<close>

definition rand_number :: "int \<Rightarrow> int \<Rightarrow> rand_state \<Rightarrow> (int \<times> rand_state) option" where
  "rand_number mn mx g =
     (let (r, g') = rand g in
      if mx - mn = 0 then None else Some (c_rem (int r) (mx - mn) + mn, g'))"

definition start_dir :: "rand_state \<Rightarrow> int \<times> rand_state" where
  "start_dir g = (let (r, g') = rand g in if c_rem (int r) 2 = 0 then (- 1, g') else (1, g'))"

definition ball_init :: "ppcourt \<Rightarrow> ppball \<Rightarrow> rand_state \<Rightarrow> (ppball \<times> rand_state) option" where
  "ball_init c bp g =
     (case rand_number (get_top_edge c + 1) (get_bot_edge c - 1) g of
        None \<Rightarrow> None
      | Some (y, g1) \<Rightarrow>
     (case rand_number (get_left_edge c + 1) (get_right_edge c - 1) g1 of
        None \<Rightarrow> None
      | Some (x, g2) \<Rightarrow>
     (let (yd, g3) = start_dir g2;
          (xd, g4) = start_dir g3
      in
     (case rand_number 1 MAX_DELAY g4 of
        None \<Rightarrow> None
      | Some (ydl, g5) \<Rightarrow>
     (case rand_number 1 (c_div MAX_DELAY 2) g5 of
        None \<Rightarrow> None
      | Some (xdl, g6) \<Rightarrow>
          Some (bp\<lparr>y_pos := y, x_pos := x, y_dir := yd, x_dir := xd,
                    y_delay := ydl, y_count := ydl, x_delay := xdl, x_count := xdl,
                    symbol := BALL_SYMBOL, remain := remain bp - 1\<rparr>, g6))))))"

definition draw_ball :: "ppball \<Rightarrow> event list" where
  "draw_ball bp = [Mvaddch (y_pos bp) (x_pos bp) (symbol bp), Park_cursor, Refresh]"

text \<open>
  \<open>new_ball\<close> sets \<open>remain\<close> only: \<open>mem\<close> is the block that \<open>malloc\<close> returned, with
  whatever it holds, or \<open>None\<close> when the allocation failed.
\<close>

definition new_ball :: "ppball option \<Rightarrow> ppball outcome" where
  "new_ball mem =
     (case mem of
        None \<Rightarrow>
          Exit 1 (wrap_up @
            [Stderr (''./pong: Couldn't allocate memory for a ball.'' @ [CHR 0x0A])])
      | Some blk \<Rightarrow> Return (blk\<lparr>remain := NUM_BALLS\<rparr>))"

text \<open>
  \<open>ball_move\<close>: \<open>&&\<close> evaluates \<open>--bp->y_count\<close> only when the delay is positive; the
  second component of the pairs is the local \<open>moved\<close>.
\<close>

definition ball_move :: "ppball \<Rightarrow> ppball \<times> event list" where
  "ball_move bp =
     (let y_cur = y_pos bp;
          x_cur = x_pos bp;
          (b1, m1) =
            (if y_delay bp > 0 then
               (let b = bp\<lparr>y_count := y_count bp - 1\<rparr> in
                if y_count b = 0
                then (b\<lparr>y_pos := y_pos b + y_dir b, y_count := y_delay b\<rparr>, True)
                else (b, False))
             else (bp, False));
          (b2, m2) =
            (if x_delay b1 > 0 then
               (let b = b1\<lparr>x_count := x_count b1 - 1\<rparr> in
                if x_count b = 0
                then (b\<lparr>x_pos := x_pos b + x_dir b, x_count := x_delay b\<rparr>, True)
                else (b, m1))
             else (b1, m1))
      in (b2, if m2 then Mvaddch y_cur x_cur BLANK # draw_ball b2 else []))"

text \<open>
  \<open>bounce_or_lose\<close> returns the value of \<open>return_val\<close>, the ball, the generator and
  the events. \<open>r1\<close> is \<open>return_val\<close> after the vertical test.
\<close>

definition bounce_or_lose ::
  "ppcourt \<Rightarrow> ppball \<Rightarrow> pppaddle \<Rightarrow> rand_state \<Rightarrow> (int \<times> ppball \<times> rand_state \<times> event list) option"
where
  "bounce_or_lose c bp pp g =
     (let (b1, r1) =
            (if y_pos bp = get_top_edge c + 1 then (bp\<lparr>y_dir := 1\<rparr>, BOUNCE)
             else if y_pos bp = get_bot_edge c - 1 then (bp\<lparr>y_dir := - 1\<rparr>, BOUNCE)
             else (bp, NO_CONTACT))
      in
      if x_pos b1 = get_left_edge c + 1 then Some (BOUNCE, b1\<lparr>x_dir := 1\<rparr>, g, [])
      else if x_pos b1 = get_right_edge c - 1 then
        (if paddle_contact (y_pos b1) pp = CONTACT then
           (case rand_number 1 (c_div MAX_DELAY 2) g of
              None \<Rightarrow> None
            | Some (xdl, g1) \<Rightarrow>
           (case rand_number 1 MAX_DELAY g1 of
              None \<Rightarrow> None
            | Some (ydl, g2) \<Rightarrow>
                Some (BOUNCE, b1\<lparr>x_delay := xdl, y_delay := ydl, x_dir := - 1\<rparr>, g2, [])))
         else Some (LOSE, b1, g, [Mvaddch (y_pos b1) (x_pos b1) BLANK]))
      else Some (r1, b1, g, []))"

definition get_balls_left :: "ppball \<Rightarrow> int" where
  "get_balls_left bp = remain bp"

definition serve :: "ppcourt \<Rightarrow> ppball \<Rightarrow> rand_state \<Rightarrow> (ppball \<times> rand_state \<times> event list) option" where
  "serve c bp g =
     (case ball_init c bp g of
        None \<Rightarrow> None
      | Some (b, g') \<Rightarrow> Some (b, g', draw_ball b @ print_balls c (remain b)))"

section \<open>The game (pong.c)\<close>

text \<open>
  The state of the process: the curses variables \<open>LINES\<close> and \<open>COLS\<close>, the static
  objects of court.c, clock.c and pong.c, the generator, and the events emitted so far.
  Calls that set the terminal mode (\<open>initscr\<close>, \<open>noecho\<close>, \<open>cbreak\<close>) or a signal
  disposition are not recorded.
\<close>

record pong =
  LINES :: int
  COLS :: int
  court :: ppcourt
  clock :: timer
  paddle :: pppaddle
  ball :: ppball
  rnd :: rand_state
  screen :: "event list"

text \<open>
  A handler either returns to the game, or ends the process by \<open>exit(n)\<close> with the
  events of the whole run, or traps on a division by zero.
\<close>

datatype run = Running pong | Exited int "event list" | Trapped

definition is_min_size :: "int \<Rightarrow> int \<Rightarrow> unit outcome" where
  "is_min_size lines cols =
     (if lines < MIN_LINES \<or> cols < MIN_COLS then
        Exit 1 (wrap_up @
          [Stderr (''Terminal must be a minimum of 40x11. Please resize and try again.'' @
             [CHR 0x0A])])
      else Return ())"

text \<open>
  \<open>set_up lines cols alloc mem g\<close>: \<open>lines\<close> and \<open>cols\<close> are what \<open>initscr\<close> finds,
  \<open>alloc\<close> and \<open>mem\<close> what the two calls of \<open>malloc\<close> return, \<open>g\<close> the generator that
  \<open>srand(getpid())\<close> seeds.
\<close>

definition set_up :: "int \<Rightarrow> int \<Rightarrow> bool \<Rightarrow> ppball option \<Rightarrow> rand_state \<Rightarrow> run" where
  "set_up lines cols alloc mem g =
     (case is_min_size lines cols of
        Exit n evs \<Rightarrow> Exited n evs
      | Return _ \<Rightarrow>
     (let tp = BORDER;
          rt = cols - BORDER - 1;
          bt = lines - BORDER - 1;
          lf = BORDER;
          c = court_init tp rt bt lf
      in
     (case new_paddle lines c alloc of
        Exit n evs \<Rightarrow> Exited n evs
      | Return (p, pevs) \<Rightarrow>
     (case new_ball mem of
        Exit n evs \<Rightarrow> Exited n (pevs @ evs)
      | Return b \<Rightarrow>
          Running \<lparr>LINES = lines, COLS = cols, court = c, clock = clock_init,
                   paddle = p, ball = b, rnd = g,
                   screen = pevs @ print_court c clock_init NUM_BALLS @
                            [Set_ticker (c_div 1000 TICKS_PER_SEC)]\<rparr>))))"

definition exit_message :: "pong \<Rightarrow> event list" where
  "exit_message st =
     (let y = c_div (LINES st) 2;
          x = c_div (COLS st) 2 - c_div EXIT_MSG_LEN 2
      in [Standout, Print_lasted y x (get_mins (clock st)) (get_secs (clock st)),
          Standend, Park_cursor, Refresh, Sleep 2])"

definition is_next_round :: "pong \<Rightarrow> run" where
  "is_next_round st =
     (case bounce_or_lose (court st) (ball st) (paddle st) (rnd st) of
        None \<Rightarrow> Trapped
      | Some (rv, b, g, evs) \<Rightarrow>
          (let st1 = st\<lparr>ball := b, rnd := g, screen := screen st @ evs\<rparr> in
           if rv = LOSE then
             (if get_balls_left (ball st1) > 0 then
                (case serve (court st1) (ball st1) (rnd st1) of
                   None \<Rightarrow> Trapped
                 | Some (b', g', evs') \<Rightarrow>
                     Running (st1\<lparr>ball := b', rnd := g', screen := screen st1 @ evs'\<rparr>))
              else Exited 0 (screen st1 @ exit_message st1 @ wrap_up))
           else Running st1))"

definition up_paddle :: "pong \<Rightarrow> run" where
  "up_paddle st =
     (let (p, evs) = paddle_up (paddle st)
      in is_next_round (st\<lparr>paddle := p, screen := screen st @ evs\<rparr>))"

definition down_paddle :: "pong \<Rightarrow> run" where
  "down_paddle st =
     (let (p, evs) = paddle_down (paddle st)
      in is_next_round (st\<lparr>paddle := p, screen := screen st @ evs\<rparr>))"

definition alarm_handler :: "pong \<Rightarrow> run" where
  "alarm_handler st =
     (let (t, tevs) = clock_tick (court st) (clock st);
          (b, bevs) = ball_move (ball st)
      in is_next_round (st\<lparr>clock := t, ball := b, screen := screen st @ tevs @ bevs\<rparr>))"

text \<open>
  \<open>main\<close> blocks in \<open>getch\<close>; what reaches the process is a sequence of alarms and
  keys, and each handler runs to its end before the next input is taken. An alarm is
  handled inside \<open>getch\<close>, a key ends it. When the inputs are used up the process is
  still waiting in \<open>getch\<close>.
\<close>

datatype input = Alarm | Key char

definition finish :: "pong \<Rightarrow> run" where
  "finish st = Exited 0 (screen st @ exit_message st @ wrap_up)"

fun main_loop :: "pong \<Rightarrow> input list \<Rightarrow> run"
  and getch :: "pong \<Rightarrow> input list \<Rightarrow> run"
where
  "main_loop st ins = (if get_balls_left (ball st) \<ge> 0 then getch st ins else finish st)"
| "getch st [] = Running st"
| "getch st (Alarm # ins) =
     (case alarm_handler st of Running st' \<Rightarrow> getch st' ins | r \<Rightarrow> r)"
| "getch st (Key ch # ins) =
     (if ch \<noteq> CHR ''Q'' then
        (case (if ch = CHR ''k'' then up_paddle st
               else if ch = CHR ''m'' then down_paddle st
               else Running st) of
           Running st' \<Rightarrow> main_loop st' ins
         | r \<Rightarrow> r)
      else finish st)"

definition main :: "int \<Rightarrow> int \<Rightarrow> bool \<Rightarrow> ppball option \<Rightarrow> rand_state \<Rightarrow> input list \<Rightarrow> run" where
  "main lines cols alloc mem g ins =
     (case set_up lines cols alloc mem g of
        Running st \<Rightarrow>
          (case serve (court st) (ball st) (rnd st) of
             None \<Rightarrow> Trapped
           | Some (b, g', evs) \<Rightarrow>
               main_loop (st\<lparr>ball := b, rnd := g', screen := screen st @ evs\<rparr>) ins)
      | r \<Rightarrow> r)"

section \<open>Sequences of calls and derived notions\<close>

text \<open>The paddle after a sequence of calls of \<open>paddle_up\<close> and \<open>paddle_down\<close>.\<close>

datatype paddle_cmd = Up | Down

fun paddle_moves :: "pppaddle \<Rightarrow> paddle_cmd list \<Rightarrow> pppaddle" where
  "paddle_moves pp [] = pp"
| "paddle_moves pp (Up # ms) = paddle_moves (fst (paddle_up pp)) ms"
| "paddle_moves pp (Down # ms) = paddle_moves (fst (paddle_down pp)) ms"

definition paddle_ok :: "pppaddle \<Rightarrow> bool" where
  "paddle_ok pp \<longleftrightarrow> pad_mintop pp \<le> pad_top pp \<and> pad_bot pp \<le> pad_maxbot pp"

text \<open>The ball and the generator after \<open>n\<close> calls of \<open>serve\<close>.\<close>

fun serves :: "ppcourt \<Rightarrow> nat \<Rightarrow> ppball \<Rightarrow> rand_state \<Rightarrow> (ppball \<times> rand_state) option" where
  "serves c 0 bp g = Some (bp, g)"
| "serves c (Suc n) bp g =
     (case serve c bp g of None \<Rightarrow> None | Some (b, g', evs) \<Rightarrow> serves c n b g')"

text \<open>
  The ball is in the branch of \<open>bounce_or_lose\<close> that draws new delays: on the column
  next to the right edge, which the \<open>else if\<close> reaches only when it is not the column
  next to the left edge, with the paddle covering its row.
\<close>

definition paddle_hit :: "ppcourt \<Rightarrow> ppball \<Rightarrow> pppaddle \<Rightarrow> bool" where
  "paddle_hit c bp pp \<longleftrightarrow>
     x_pos bp \<noteq> get_left_edge c + 1 \<and> x_pos bp = get_right_edge c - 1
     \<and> paddle_contact (y_pos bp) pp = CONTACT"

text \<open>The ball is strictly between the four walls of the court.\<close>

definition inside_court :: "ppcourt \<Rightarrow> ppball \<Rightarrow> bool" where
  "inside_court c bp \<longleftrightarrow>
     get_top_edge c < y_pos bp \<and> y_pos bp < get_bot_edge c
     \<and> get_left_edge c < x_pos bp \<and> x_pos bp < get_right_edge c"

section \<open>Example inputs\<close>

text \<open>
  A generator whose every value is 0, one that returns the values of a list and then
  0, and a ball with given lives and position that moves down and to the right on
  every tick. \<open>example_game\<close> is the state in which \<open>set_up\<close> leaves a terminal of 11
  lines and 40 columns.
\<close>

definition zeros :: rand_state where
  "zeros = (\<lambda>i. 0)"

definition rand_of_list :: "nat list \<Rightarrow> rand_state" where
  "rand_of_list xs = (\<lambda>i. if i < length xs then xs ! i else 0)"

definition example_ball :: "int \<Rightarrow> int \<Rightarrow> int \<Rightarrow> ppball" where
  "example_ball n x y =
     \<lparr>remain = n, x_pos = x, y_pos = y, x_dir = 1, y_dir = 1,
      x_delay = 1, y_delay = 1, x_count = 1, y_count = 1, symbol = BALL_SYMBOL\<rparr>"

definition example_court :: ppcourt where
  "example_court = \<lparr>c_top = 3, c_right = 36, c_bot = 7, c_left = 3\<rparr>"

definition example_paddle :: "int \<Rightarrow> int \<Rightarrow> pppaddle" where
  "example_paddle tp bt =
     \<lparr>pad_char = PADDLE_SYMBOL, pad_top = tp, pad_bot = bt, pad_col = 36,
      pad_mintop = 3, pad_maxbot = 7\<rparr>"

definition example_game :: pong where
  "example_game =
     \<lparr>LINES = 11, COLS = 40, court = example_court, clock = clock_init,
      paddle = example_paddle 5 5, ball = example_ball 3 0 0, rnd = zeros,
      screen = draw_paddle (example_paddle 5 5) @ print_court example_court clock_init 3 @
               [Set_ticker 20]\<rparr>"

section \<open>The clock counts whole seconds\<close>

lemma clock_ticks_state:
  "clock_ticks c n clock_init =
     \<lparr>mins = int (n div 50 div 60), secs = int ((n div 50) mod 60), ticks = int (n mod 50)\<rparr>"
proof (induction n)
  case 0
  show ?case by (simp add: clock_init_def)
next
  case (Suc n)
  have t: "int (n mod 50) + 1 = 50 \<longleftrightarrow> n mod 50 = 49" by linarith
  have s: "int (n div 50 mod 60) + 1 = 60 \<longleftrightarrow> n div 50 mod 60 = 59" by linarith
  show ?case
    by (simp add: Suc clock_tick_def Let_def TICKS_PER_SEC_def MINUTE_def t s mod_Suc div_Suc)
qed

lemma secs_total: "int (n div 50 mod 60) + 60 * int (n div 50 div 60) = int (n div 50)"
proof -
  have "n div 50 mod 60 + 60 * (n div 50 div 60) = n div 50" by simp
  then show ?thesis by (metis of_nat_add of_nat_mult of_nat_numeral)
qed

text \<open>
  For fewer than \<open>3000 * 2 ^ 31\<close> ticks every field of the clock stays in the range of
  a 32-bit \<open>int\<close>, so that no increment of \<open>clock_tick\<close> overflows and the C program
  computes what the model computes. From that number of ticks on, \<open>clock.mins++\<close>
  overflows in C, and the model says nothing about the program.
\<close>

lemma clock_ticks_in_range:
  assumes "n < 3000 * 2 ^ 31"
  shows "0 \<le> mins (clock_ticks c n clock_init) \<and> mins (clock_ticks c n clock_init) < 2 ^ 31
    \<and> 0 \<le> secs (clock_ticks c n clock_init) \<and> secs (clock_ticks c n clock_init) < 60
    \<and> 0 \<le> ticks (clock_ticks c n clock_init) \<and> ticks (clock_ticks c n clock_init) < 50"
proof -
  have "n div 50 div 60 = n div 3000" by (simp add: div_mult2_eq)
  moreover from assms have "n div 3000 < 2 ^ 31" by (simp add: less_mult_imp_div_less)
  ultimately have "n div 50 div 60 < 2 ^ 31" by simp
  then have "int (n div 50 div 60) < 2 ^ 31"
    by (metis of_nat_less_iff of_nat_numeral of_nat_power)
  then show ?thesis by (simp add: clock_ticks_state)
qed

text \<open>
  C2. Started by \<open>clock_init\<close> and ticked \<open>n\<close> times with \<open>TICKS_PER_SEC = 50\<close>, for
  every \<open>n\<close> below \<open>3000 * 2 ^ 31\<close>, the number of ticks at which the minutes of the C
  program would leave the range of a 32-bit \<open>int\<close>, the clock shows \<open>n div 50\<close> whole
  seconds: \<open>get_secs + 60 * get_mins = n div 50\<close> and \<open>get_secs = (n div 50) mod 60\<close>,
  with the minutes between 0 and \<open>2 ^ 31 - 1\<close>. After 150 ticks it shows 0 minutes and 3
  seconds.
\<close>

theorem clock_counts_seconds:
  assumes "n < 3000 * 2 ^ 31"
  shows "get_secs (clock_ticks c n clock_init) + 60 * get_mins (clock_ticks c n clock_init)
      = int (n div 50)
    \<and> get_secs (clock_ticks c n clock_init) = int ((n div 50) mod 60)
    \<and> 0 \<le> get_mins (clock_ticks c n clock_init)
    \<and> get_mins (clock_ticks c n clock_init) < 2 ^ 31
    \<and> get_mins (clock_ticks c 150 clock_init) = 0
    \<and> get_secs (clock_ticks c 150 clock_init) = 3"
proof -
  have "get_secs (clock_ticks c n clock_init) + 60 * get_mins (clock_ticks c n clock_init)
      = int (n div 50)"
    and "get_secs (clock_ticks c n clock_init) = int ((n div 50) mod 60)"
    and "get_mins (clock_ticks c 150 clock_init) = 0"
    and "get_secs (clock_ticks c 150 clock_init) = 3"
    by (simp_all add: clock_ticks_state get_secs_def get_mins_def secs_total)
  moreover have "0 \<le> get_mins (clock_ticks c n clock_init)"
    and "get_mins (clock_ticks c n clock_init) < 2 ^ 31"
    using clock_ticks_in_range [OF assms, of c] by (simp_all add: get_mins_def)
  ultimately show ?thesis by simp
qed

theorem clock_counts_seconds_witness:
  "(150::nat) < 3000 * 2 ^ 31
   \<and> get_secs (clock_ticks example_court 150 clock_init)
       + 60 * get_mins (clock_ticks example_court 150 clock_init) = 3
   \<and> get_secs (clock_ticks example_court 150 clock_init) = 3
   \<and> get_mins (clock_ticks example_court 150 clock_init) = 0"
proof -
  have h: "(150::nat) < 3000 * 2 ^ 31" by simp
  from clock_counts_seconds [OF h, of example_court] h show ?thesis by simp
qed

section \<open>Facts about the start of a game and the random draws\<close>

lemma c_rem_nonneg: "0 < d \<Longrightarrow> c_rem (int r) d = int r mod d"
  by (cases "r = 0") (simp_all add: c_rem_def)

lemma c_div_nonneg: "0 \<le> a \<Longrightarrow> 0 < d \<Longrightarrow> c_div a d = a div d"
  by (cases "a = 0") (simp_all add: c_div_def)

lemma rand_number_range:
  assumes "mn < mx"
  shows "\<exists>v. rand_number mn mx g = Some (v, \<lambda>i. g (Suc i)) \<and> mn \<le> v \<and> v < mx"
proof -
  from assms have d: "0 < mx - mn" by simp
  have "0 \<le> int (g 0) mod (mx - mn)" "int (g 0) mod (mx - mn) < mx - mn"
    using d by simp_all
  then have "mn \<le> int (g 0) mod (mx - mn) + mn" "int (g 0) mod (mx - mn) + mn < mx"
    by linarith+
  then show ?thesis
    using d by (simp add: rand_number_def rand_def c_rem_nonneg)
qed

lemma set_up_Running:
  assumes "set_up lines cols alloc mem g = Running st"
  shows "11 \<le> lines" "40 \<le> cols"
    "court st = \<lparr>c_top = 3, c_right = cols - 4, c_bot = lines - 4, c_left = 3\<rparr>"
    "LINES st = lines" "COLS st = cols"
    "new_paddle lines (court st) True = Return (paddle st, draw_paddle (paddle st))"
    "\<exists>blk. mem = Some blk \<and> ball st = blk\<lparr>remain := NUM_BALLS\<rparr>"
    "clock st = clock_init" "rnd st = g"
  using assms
  by (auto simp: set_up_def is_min_size_def new_paddle_def new_ball_def paddle_init_def
      court_init_def Let_def pong_consts split: if_splits outcome.splits option.splits prod.splits)

lemma set_up_paddle:
  assumes "set_up lines cols alloc mem g = Running st"
  shows "paddle st = \<lparr>pad_char = PADDLE_SYMBOL,
       pad_top = lines div 2 - (lines - 8) div 3 div 2,
       pad_bot = lines div 2 - (lines - 8) div 3 div 2 + (lines - 8) div 3 - 1,
       pad_col = cols - 4, pad_mintop = 3, pad_maxbot = lines - 4\<rparr>"
proof -
  from assms have l: "11 \<le> lines" by (rule set_up_Running)
  then have "c_div (lines - 8) 3 = (lines - 8) div 3" "c_div lines 2 = lines div 2"
    "c_div ((lines - 8) div 3) 2 = (lines - 8) div 3 div 2"
    by (simp_all add: c_div_nonneg)
  with set_up_Running(3,6) [OF assms] show ?thesis
    by (simp add: new_paddle_def paddle_init_def Let_def edge_defs BORDER_def)
qed

lemma start_dir_cases:
  "\<exists>d. start_dir g = (d, \<lambda>i. g (Suc i)) \<and> (d = - 1 \<or> d = 1)"
  by (simp add: start_dir_def rand_def)

lemma ball_init_range:
  assumes v: "c_top c + 2 < c_bot c" and h: "c_left c + 2 < c_right c"
  shows "\<exists>b g'. ball_init c bp g = Some (b, g')
    \<and> c_top c + 1 \<le> y_pos b \<and> y_pos b < c_bot c - 1
    \<and> c_left c + 1 \<le> x_pos b \<and> x_pos b < c_right c - 1
    \<and> (y_dir b = - 1 \<or> y_dir b = 1) \<and> (x_dir b = - 1 \<or> x_dir b = 1)
    \<and> 1 \<le> y_delay b \<and> y_delay b < MAX_DELAY \<and> y_count b = y_delay b
    \<and> 1 \<le> x_delay b \<and> x_delay b < c_div MAX_DELAY 2 \<and> x_count b = x_delay b
    \<and> remain b = remain bp - 1 \<and> symbol b = BALL_SYMBOL"
proof -
  let ?g1 = "\<lambda>i. g (Suc i)"
  let ?g2 = "\<lambda>i. ?g1 (Suc i)"
  let ?g3 = "\<lambda>i. ?g2 (Suc i)"
  let ?g4 = "\<lambda>i. ?g3 (Suc i)"
  let ?g5 = "\<lambda>i. ?g4 (Suc i)"
  from v obtain y where y: "rand_number (get_top_edge c + 1) (get_bot_edge c - 1) g = Some (y, ?g1)"
      "c_top c + 1 \<le> y" "y < c_bot c - 1"
    using rand_number_range [of "c_top c + 1" "c_bot c - 1" g] by (auto simp: edge_defs)
  from h obtain x where x: "rand_number (get_left_edge c + 1) (get_right_edge c - 1) ?g1 = Some (x, ?g2)"
      "c_left c + 1 \<le> x" "x < c_right c - 1"
    using rand_number_range [of "c_left c + 1" "c_right c - 1" ?g1] by (auto simp: edge_defs)
  obtain yd where yd: "start_dir ?g2 = (yd, ?g3)" "yd = - 1 \<or> yd = 1"
    using start_dir_cases [of ?g2] by auto
  obtain xd where xd: "start_dir ?g3 = (xd, ?g4)" "xd = - 1 \<or> xd = 1"
    using start_dir_cases [of ?g3] by auto
  obtain ydl where ydl: "rand_number 1 MAX_DELAY ?g4 = Some (ydl, ?g5)" "1 \<le> ydl" "ydl < MAX_DELAY"
    using rand_number_range [of 1 MAX_DELAY ?g4] by (auto simp: MAX_DELAY_def)
  have md: "(1::int) < c_div MAX_DELAY 2" by (simp add: MAX_DELAY_def c_div_def)
  obtain xdl where xdl: "rand_number 1 (c_div MAX_DELAY 2) ?g5 = Some (xdl, \<lambda>i. ?g5 (Suc i))"
      "1 \<le> xdl" "xdl < c_div MAX_DELAY 2"
    using rand_number_range [OF md, of ?g5] by auto
  show ?thesis
    unfolding ball_init_def
    using y x yd xd ydl xdl by simp
qed

lemma set_up_example:
  "set_up 11 40 True (Some (example_ball 0 0 0)) zeros = Running example_game"
  by (simp add: set_up_def is_min_size_def new_paddle_def new_ball_def paddle_init_def
      court_init_def edge_defs c_div_def Let_def pong_consts example_game_def example_court_def
      example_paddle_def example_ball_def)

lemma set_up_interior:
  assumes "set_up lines cols alloc mem g = Running st"
  shows "c_top (court st) + 2 < c_bot (court st)" "c_left (court st) + 2 < c_right (court st)"
  using set_up_Running(1,2) [OF assms] by (simp_all add: set_up_Running(3) [OF assms])

lemma serve_range:
  assumes v: "c_top c + 2 < c_bot c" and h: "c_left c + 2 < c_right c"
  shows "\<exists>b g'. serve c bp g = Some (b, g', draw_ball b @ print_balls c (remain b))
    \<and> c_top c + 1 \<le> y_pos b \<and> y_pos b < c_bot c - 1
    \<and> c_left c + 1 \<le> x_pos b \<and> x_pos b < c_right c - 1
    \<and> (y_dir b = - 1 \<or> y_dir b = 1) \<and> (x_dir b = - 1 \<or> x_dir b = 1)
    \<and> 1 \<le> y_delay b \<and> y_delay b < MAX_DELAY \<and> y_count b = y_delay b
    \<and> 1 \<le> x_delay b \<and> x_delay b < c_div MAX_DELAY 2 \<and> x_count b = x_delay b
    \<and> remain b = remain bp - 1 \<and> symbol b = BALL_SYMBOL"
  using ball_init_range [OF v h, of bp g]
  by (elim exE conjE) (simp add: serve_def)

lemma serve_remain:
  "serve c bp g = Some (b, g', evs) \<Longrightarrow> remain b = remain bp - 1"
  by (auto simp: serve_def ball_init_def Let_def split: option.splits prod.splits)

lemma serves_remain:
  assumes v: "c_top c + 2 < c_bot c" and h: "c_left c + 2 < c_right c"
  shows "\<exists>b g'. serves c k bp g = Some (b, g') \<and> remain b = remain bp - int k"
proof (induction k arbitrary: bp g)
  case 0
  show ?case by simp
next
  case (Suc k)
  obtain b1 g1 where s: "serve c bp g = Some (b1, g1, draw_ball b1 @ print_balls c (remain b1))"
    and r: "remain b1 = remain bp - 1"
    using serve_range [OF v h, of bp g] by (elim exE conjE)
  obtain b g' where "serves c k b1 g1 = Some (b, g')" "remain b = remain b1 - int k"
    using Suc.IH [of b1 g1] by (elim exE conjE)
  with s r show ?case by simp
qed

lemma ball_move_remain: "remain (fst (ball_move bp)) = remain bp"
  by (simp add: ball_move_def Let_def split: prod.splits)

lemma new_delays:
  "\<exists>xdl ydl. rand_number 1 (c_div MAX_DELAY 2) g = Some (xdl, \<lambda>i. g (Suc i))
     \<and> rand_number 1 MAX_DELAY (\<lambda>i. g (Suc i)) = Some (ydl, \<lambda>i. g (Suc (Suc i)))"
proof -
  have "(1::int) < c_div MAX_DELAY 2" "1 < MAX_DELAY"
    by (simp_all add: MAX_DELAY_def c_div_def)
  then show ?thesis
    using rand_number_range [of 1 "c_div MAX_DELAY 2" g]
      rand_number_range [of 1 MAX_DELAY "\<lambda>i. g (Suc i)"] by auto
qed

lemma bounce_or_lose_frame:
  "\<exists>rv b g' evs. bounce_or_lose c bp pp g = Some (rv, b, g', evs)
     \<and> (rv = NO_CONTACT \<or> rv = BOUNCE \<or> rv = LOSE)
     \<and> remain b = remain bp \<and> x_pos b = x_pos bp \<and> y_pos b = y_pos bp
     \<and> x_count b = x_count bp \<and> y_count b = y_count bp \<and> symbol b = symbol bp
     \<and> (if paddle_hit c bp pp then rv = BOUNCE
         else x_delay b = x_delay bp \<and> y_delay b = y_delay bp \<and> g' = g)"
proof -
  obtain xdl ydl where d: "rand_number 1 (c_div MAX_DELAY 2) g = Some (xdl, \<lambda>i. g (Suc i))"
     "rand_number 1 MAX_DELAY (\<lambda>i. g (Suc i)) = Some (ydl, \<lambda>i. g (Suc (Suc i)))"
    using new_delays by blast
  have "bp = bp\<lparr>y_dir := y_dir bp\<rparr>" by simp
  then obtain dy r where v:
    "(if y_pos bp = get_top_edge c + 1 then (bp\<lparr>y_dir := 1\<rparr>, BOUNCE)
      else if y_pos bp = get_bot_edge c - 1 then (bp\<lparr>y_dir := - 1\<rparr>, BOUNCE)
      else (bp, NO_CONTACT)) = (bp\<lparr>y_dir := dy\<rparr>, r)"
    and r: "r = NO_CONTACT \<or> r = BOUNCE"
    by (metis (full_types))
  show ?thesis
    unfolding bounce_or_lose_def v paddle_hit_def
    using r by (auto simp: d)
qed

lemma paddle_up_ok: "paddle_ok pp \<Longrightarrow> paddle_ok (fst (paddle_up pp))"
  by (simp add: paddle_ok_def paddle_up_def Let_def)

lemma paddle_down_ok: "paddle_ok pp \<Longrightarrow> paddle_ok (fst (paddle_down pp))"
  by (simp add: paddle_ok_def paddle_down_def Let_def)

lemma paddle_moves_ok: "paddle_ok pp \<Longrightarrow> paddle_ok (paddle_moves pp ms)"
  by (induction pp ms rule: paddle_moves.induct) (simp_all add: paddle_up_ok paddle_down_ok)

lemma set_up_paddle_ok:
  assumes "set_up lines cols alloc mem g = Running st"
  shows "paddle_ok (paddle st)"
proof -
  from assms have l: "11 \<le> lines" by (rule set_up_Running)
  from l have "3 \<le> lines div 2 - (lines - 8) div 3 div 2"
    "lines div 2 - (lines - 8) div 3 div 2 + (lines - 8) div 3 - 1 \<le> lines - 4"
    by linarith+
  then show ?thesis
    by (simp add: set_up_paddle [OF assms] paddle_ok_def)
qed

section \<open>Evaluation on the example inputs\<close>

lemma rand_zeros: "rand zeros = (0, zeros)"
  by (simp add: rand_def zeros_def)

lemma serve_zeros:
  "serve example_court bp zeros =
     Some (bp\<lparr>y_pos := 4, x_pos := 4, y_dir := - 1, x_dir := - 1,
              y_delay := 1, y_count := 1, x_delay := 1, x_count := 1,
              symbol := BALL_SYMBOL, remain := remain bp - 1\<rparr>, zeros,
           [Mvaddch 4 4 BALL_SYMBOL, Park_cursor, Refresh,
            Print_balls 2 3 (remain bp - 1), Park_cursor, Refresh])"
  by (simp add: serve_def ball_init_def rand_number_def start_dir_def rand_zeros c_rem_def
      c_div_def draw_ball_def print_balls_def example_court_def edge_defs MAX_DELAY_def)

lemma rand_of_list_Cons: "rand (rand_of_list (x # xs)) = (x, rand_of_list xs)"
  by (auto simp: rand_def rand_of_list_def fun_eq_iff)

lemma set_up_example_rnd:
  "set_up 11 40 True (Some (example_ball 0 0 0)) g = Running (example_game\<lparr>rnd := g\<rparr>)"
  by (simp add: set_up_def is_min_size_def new_paddle_def new_ball_def paddle_init_def
      court_init_def edge_defs c_div_def Let_def pong_consts example_game_def example_court_def
      example_paddle_def example_ball_def)

lemma serve_example:
  "serve example_court bp (rand_of_list (r1 # r2 # r3 # r4 # r5 # r6 # rs)) =
     Some (bp\<lparr>y_pos := int r1 mod 2 + 4, x_pos := int r2 mod 31 + 4,
              y_dir := (if int r3 mod 2 = 0 then - 1 else 1),
              x_dir := (if int r4 mod 2 = 0 then - 1 else 1),
              y_delay := int r5 mod 9 + 1, y_count := int r5 mod 9 + 1,
              x_delay := int r6 mod 4 + 1, x_count := int r6 mod 4 + 1,
              symbol := BALL_SYMBOL, remain := remain bp - 1\<rparr>, rand_of_list rs,
           [Mvaddch (int r1 mod 2 + 4) (int r2 mod 31 + 4) BALL_SYMBOL, Park_cursor, Refresh,
            Print_balls 2 3 (remain bp - 1), Park_cursor, Refresh])"
  by (simp add: serve_def ball_init_def rand_number_def start_dir_def rand_of_list_Cons
      c_rem_nonneg c_div_def draw_ball_def print_balls_def example_court_def edge_defs
      MAX_DELAY_def)

lemma exit_message_frame:
  "exit_message (st\<lparr>ball := b, rnd := g, screen := s\<rparr>) = exit_message st"
  by (simp add: exit_message_def)

lemma lose_example:
  "bounce_or_lose example_court (example_ball n 35 4) (example_paddle 5 5) g =
     Some (LOSE, example_ball n 35 4, g, [Mvaddch 4 35 BLANK])"
  by (simp add: bounce_or_lose_def example_court_def example_ball_def example_paddle_def
      paddle_contact_def edge_defs CONTACT_def NO_CONTACT_def)

section \<open>A lost ball wins over a bounce off the top or bottom wall\<close>

text \<open>
  C1. In a game that \<open>set_up\<close> has started, when the ball is on the row next to the
  top or the bottom wall and on the column next to the right edge, and the paddle does
  not cover its row, \<open>bounce_or_lose\<close> returns \<open>LOSE\<close>: the vertical direction is
  reversed by the first test, but the \<open>BOUNCE\<close> it stored is overwritten.
\<close>

theorem lose_overrides_vertical_bounce:
  assumes "set_up lines cols alloc mem g0 = Running st"
    and "y_pos bp = get_top_edge (court st) + 1 \<or> y_pos bp = get_bot_edge (court st) - 1"
    and "x_pos bp = get_right_edge (court st) - 1"
    and "paddle_contact (y_pos bp) pp = NO_CONTACT"
  shows "bounce_or_lose (court st) bp pp g =
     Some (LOSE, bp\<lparr>y_dir := (if y_pos bp = get_top_edge (court st) + 1 then 1 else - 1)\<rparr>, g,
           [Mvaddch (y_pos bp) (x_pos bp) BLANK])"
proof -
  from set_up_Running(2,3) [OF assms(1)]
  have "get_left_edge (court st) + 1 \<noteq> get_right_edge (court st) - 1"
    by (simp add: edge_defs)
  moreover have "paddle_contact (y_pos bp) pp \<noteq> CONTACT"
    using assms(4) by (simp add: CONTACT_def NO_CONTACT_def)
  ultimately show ?thesis
    using assms(2,3) by (cases "y_pos bp = get_top_edge (court st) + 1")
      (simp_all add: bounce_or_lose_def)
qed

theorem lose_overrides_vertical_bounce_witness:
  "set_up 11 40 True (Some (example_ball 0 0 0)) zeros = Running example_game
   \<and> y_pos (example_ball 2 35 4) = get_top_edge (court example_game) + 1
   \<and> x_pos (example_ball 2 35 4) = get_right_edge (court example_game) - 1
   \<and> paddle_contact (y_pos (example_ball 2 35 4)) (paddle example_game) = NO_CONTACT
   \<and> bounce_or_lose (court example_game) (example_ball 2 35 4) (paddle example_game) zeros =
       Some (LOSE, example_ball 2 35 4, zeros, [Mvaddch 4 35 BLANK])"
proof -
  have h1: "y_pos (example_ball 2 35 4) = get_top_edge (court example_game) + 1"
    and h2: "x_pos (example_ball 2 35 4) = get_right_edge (court example_game) - 1"
    and h3: "paddle_contact (y_pos (example_ball 2 35 4)) (paddle example_game) = NO_CONTACT"
    by (simp_all add: example_game_def example_court_def example_paddle_def example_ball_def
        edge_defs paddle_contact_def)
  from lose_overrides_vertical_bounce [OF set_up_example disjI1 [OF h1] h2 h3, of zeros] h1
  have "bounce_or_lose (court example_game) (example_ball 2 35 4) (paddle example_game) zeros =
         Some (LOSE, example_ball 2 35 4, zeros, [Mvaddch 4 35 BLANK])"
    by (simp add: example_ball_def)
  with set_up_example h1 h2 h3 show ?thesis by simp
qed

section \<open>The paddle stays between its bounds\<close>

text \<open>
  C3. For the paddle that \<open>new_paddle\<close> creates in \<open>set_up\<close> and every sequence of
  calls of \<open>paddle_up\<close> and \<open>paddle_down\<close>, \<open>pad_mintop \<le> pad_top\<close> and
  \<open>pad_bot \<le> pad_maxbot\<close> hold after the sequence. For any paddle, \<open>paddle_up\<close> called
  when \<open>pad_top - 1 \<le> pad_mintop\<close> changes nothing and draws nothing, and so does
  \<open>paddle_down\<close> called when \<open>pad_bot + 1 \<ge> pad_maxbot\<close>.
\<close>

theorem paddle_stays_within_bounds:
  assumes "set_up lines cols alloc mem g = Running st"
  shows "pad_mintop (paddle_moves (paddle st) ms) \<le> pad_top (paddle_moves (paddle st) ms)
    \<and> pad_bot (paddle_moves (paddle st) ms) \<le> pad_maxbot (paddle_moves (paddle st) ms)
    \<and> (pad_top pp - 1 \<le> pad_mintop pp \<longrightarrow> paddle_up pp = (pp, []))
    \<and> (pad_bot pp + 1 \<ge> pad_maxbot pp \<longrightarrow> paddle_down pp = (pp, []))"
  using paddle_moves_ok [OF set_up_paddle_ok [OF assms], of ms]
  by (simp add: paddle_ok_def paddle_up_def paddle_down_def)

theorem paddle_stays_within_bounds_witness:
  "set_up 11 40 True (Some (example_ball 0 0 0)) zeros = Running example_game
   \<and> paddle_moves (paddle example_game) [Up, Up, Up, Down] = example_paddle 5 5
   \<and> pad_mintop (example_paddle 5 5) \<le> pad_top (example_paddle 5 5)
   \<and> pad_bot (example_paddle 5 5) \<le> pad_maxbot (example_paddle 5 5)
   \<and> pad_top (example_paddle 4 4) - 1 \<le> pad_mintop (example_paddle 4 4)
   \<and> paddle_up (example_paddle 4 4) = (example_paddle 4 4, [])
   \<and> pad_bot (example_paddle 6 6) + 1 \<ge> pad_maxbot (example_paddle 6 6)
   \<and> paddle_down (example_paddle 6 6) = (example_paddle 6 6, [])"
proof -
  have m: "paddle_moves (paddle example_game) [Up, Up, Up, Down] = example_paddle 5 5"
    by (simp add: example_game_def example_paddle_def paddle_up_def paddle_down_def)
  have u: "pad_top (example_paddle 4 4) - 1 \<le> pad_mintop (example_paddle 4 4)"
    and d: "pad_bot (example_paddle 6 6) + 1 \<ge> pad_maxbot (example_paddle 6 6)"
    by (simp_all add: example_paddle_def)
  from paddle_stays_within_bounds [OF set_up_example, of "[Up, Up, Up, Down]" "example_paddle 4 4"]
    paddle_stays_within_bounds [OF set_up_example, of "[]" "example_paddle 6 6"]
  show ?thesis using m u d set_up_example by simp
qed

section \<open>The bounds of the paddle are the rows of the court's walls\<close>

text \<open>
  C4, as amended. In a game that \<open>set_up\<close> has started, the bounds of the paddle are
  \<open>pad_mintop = BORDER\<close>, which is the top row of the court, and
  \<open>pad_maxbot = LINES - BORDER - 1\<close>, which is its bottom row: no margin is added to the
  court's edges.
\<close>

theorem paddle_bounds_are_court_edges:
  assumes "set_up lines cols alloc mem g = Running st"
  shows "pad_mintop (paddle st) = BORDER
    \<and> pad_mintop (paddle st) = get_top_edge (court st)
    \<and> pad_maxbot (paddle st) = lines - BORDER - 1
    \<and> pad_maxbot (paddle st) = get_bot_edge (court st)"
  by (simp add: set_up_paddle [OF assms] set_up_Running(3) [OF assms] edge_defs BORDER_def)

theorem paddle_bounds_are_court_edges_witness:
  "set_up 11 40 True (Some (example_ball 0 0 0)) zeros = Running example_game
   \<and> pad_mintop (paddle example_game) = 3
   \<and> get_top_edge (court example_game) = 3
   \<and> pad_maxbot (paddle example_game) = 7
   \<and> get_bot_edge (court example_game) = 7"
  using paddle_bounds_are_court_edges [OF set_up_example] set_up_example
  by (simp add: BORDER_def)

text \<open>
  C4, as stated, fails: on a terminal of 11 lines and 40 columns the court's top row
  plus \<open>BORDER\<close> is 6 and its bottom row minus \<open>BORDER\<close> minus 1 is 3, while the bounds
  of the paddle are 3 and 7.
\<close>

theorem paddle_bounds_margin_counterexample:
  "set_up 11 40 True (Some (example_ball 0 0 0)) zeros = Running example_game
   \<and> pad_mintop (paddle example_game) = 3
   \<and> get_top_edge (court example_game) + BORDER = 6
   \<and> pad_mintop (paddle example_game) \<noteq> get_top_edge (court example_game) + BORDER
   \<and> pad_maxbot (paddle example_game) = 7
   \<and> get_bot_edge (court example_game) - BORDER - 1 = 3
   \<and> pad_maxbot (paddle example_game) \<noteq> get_bot_edge (court example_game) - BORDER - 1"
  using set_up_example
  by (simp add: example_game_def example_court_def example_paddle_def edge_defs BORDER_def)

section \<open>The height of the paddle\<close>

text \<open>
  C9. The paddle that \<open>new_paddle\<close> returns covers \<open>c_div h 3\<close> rows, where
  \<open>h = get_bot_edge - get_top_edge - 1\<close> is the number of rows between the walls of the
  court: a third of \<open>h\<close> by integer division. When \<open>h \<ge> 3\<close> this is \<open>h div 3\<close> and at
  least 1; for \<open>h = 9\<close> it is 3. The court that \<open>set_up\<close> builds on a terminal that
  passes \<open>is_min_size\<close> has \<open>h \<ge> 3\<close>.
\<close>

theorem paddle_height_is_third:
  assumes "new_paddle lines c True = Return (pp, evs)"
  shows "pad_bot pp - pad_top pp + 1 = c_div (get_bot_edge c - get_top_edge c - 1) 3
    \<and> (3 \<le> get_bot_edge c - get_top_edge c - 1 \<longrightarrow>
         pad_bot pp - pad_top pp + 1 = (get_bot_edge c - get_top_edge c - 1) div 3
         \<and> 1 \<le> pad_bot pp - pad_top pp + 1)
    \<and> (get_bot_edge c - get_top_edge c - 1 = 9 \<longrightarrow> pad_bot pp - pad_top pp + 1 = 3)
    \<and> (is_min_size lines cols = Return ()
         \<and> c = court_init BORDER (cols - BORDER - 1) (lines - BORDER - 1) BORDER \<longrightarrow>
         3 \<le> get_bot_edge c - get_top_edge c - 1)"
proof -
  from assms have h: "pad_bot pp - pad_top pp + 1 = c_div (get_bot_edge c - get_top_edge c - 1) 3"
    by (auto simp: new_paddle_def paddle_init_def Let_def)
  have "3 \<le> get_bot_edge c - get_top_edge c - 1 \<Longrightarrow>
      c_div (get_bot_edge c - get_top_edge c - 1) 3 = (get_bot_edge c - get_top_edge c - 1) div 3
      \<and> 1 \<le> (get_bot_edge c - get_top_edge c - 1) div 3"
    by (simp add: c_div_nonneg)
  moreover have "get_bot_edge c - get_top_edge c - 1 = 9 \<Longrightarrow>
      c_div (get_bot_edge c - get_top_edge c - 1) 3 = 3"
    by (simp add: c_div_def)
  moreover have "is_min_size lines cols = Return ()
         \<and> c = court_init BORDER (cols - BORDER - 1) (lines - BORDER - 1) BORDER \<longrightarrow>
         3 \<le> get_bot_edge c - get_top_edge c - 1"
    by (auto simp: is_min_size_def court_init_def edge_defs pong_consts split: if_splits)
  ultimately show ?thesis using h by auto
qed

theorem paddle_height_is_third_witness:
  "new_paddle 17 (court_init 3 36 13 3) True =
     Return (\<lparr>pad_char = PADDLE_SYMBOL, pad_top = 7, pad_bot = 9, pad_col = 36,
              pad_mintop = 3, pad_maxbot = 13\<rparr>,
             [Mvaddch 7 36 PADDLE_SYMBOL, Mvaddch 8 36 PADDLE_SYMBOL, Mvaddch 9 36 PADDLE_SYMBOL,
              Park_cursor, Refresh])
   \<and> get_bot_edge (court_init 3 36 13 3) - get_top_edge (court_init 3 36 13 3) - 1 = 9
   \<and> is_min_size 17 40 = Return ()
   \<and> court_init 3 36 13 3 = court_init BORDER (40 - BORDER - 1) (17 - BORDER - 1) BORDER
   \<and> c_div 9 3 = 3"
proof -
  have n: "new_paddle 17 (court_init 3 36 13 3) True =
     Return (\<lparr>pad_char = PADDLE_SYMBOL, pad_top = 7, pad_bot = 9, pad_col = 36,
              pad_mintop = 3, pad_maxbot = 13\<rparr>,
             [Mvaddch 7 36 PADDLE_SYMBOL, Mvaddch 8 36 PADDLE_SYMBOL, Mvaddch 9 36 PADDLE_SYMBOL,
              Park_cursor, Refresh])"
    by (simp add: new_paddle_def paddle_init_def draw_paddle_def court_init_def edge_defs
        c_div_def Let_def BORDER_def upto_rec1)
  from paddle_height_is_third [OF n, of 40] show ?thesis
    using n by (simp add: is_min_size_def court_init_def edge_defs pong_consts)
qed

section \<open>What \<open>bounce_or_lose\<close> leaves unchanged\<close>

text \<open>
  C10. \<open>bounce_or_lose\<close> always returns, with one of \<open>NO_CONTACT\<close>, \<open>BOUNCE\<close> and
  \<open>LOSE\<close>, and the ball it leaves has the position of the ball it was given, and its
  \<open>remain\<close>, counters and symbol: only the directions and the delays can differ, and
  the delays differ only on a paddle hit.
\<close>

theorem bounce_or_lose_keeps_position:
  "\<exists>rv b g' evs. bounce_or_lose c bp pp g = Some (rv, b, g', evs)
     \<and> (rv = NO_CONTACT \<or> rv = BOUNCE \<or> rv = LOSE)
     \<and> x_pos b = x_pos bp \<and> y_pos b = y_pos bp
     \<and> remain b = remain bp \<and> x_count b = x_count bp \<and> y_count b = y_count bp
     \<and> symbol b = symbol bp
     \<and> (\<not> paddle_hit c bp pp \<longrightarrow> x_delay b = x_delay bp \<and> y_delay b = y_delay bp)"
  using bounce_or_lose_frame [of c bp pp g]
  by (elim exE conjE, intro exI conjI) (simp_all split: if_splits)

theorem bounce_or_lose_keeps_position_witness:
  "\<not> paddle_hit example_court (example_ball 2 35 4) (example_paddle 5 5)
   \<and> bounce_or_lose example_court (example_ball 2 35 4) (example_paddle 5 5) zeros =
       Some (LOSE, example_ball 2 35 4, zeros, [Mvaddch 4 35 BLANK])
   \<and> x_delay (example_ball 2 35 4) = 1 \<and> y_delay (example_ball 2 35 4) = 1"
  using bounce_or_lose_keeps_position [of example_court "example_ball 2 35 4" "example_paddle 5 5" zeros]
  by (simp add: paddle_hit_def bounce_or_lose_def example_court_def example_ball_def
      example_paddle_def paddle_contact_def edge_defs pong_consts)

section \<open>Each serve takes one ball\<close>

text \<open>
  C7. In a game that \<open>set_up\<close> has started, every call of \<open>serve\<close> returns and
  lowers \<open>get_balls_left\<close> by exactly 1, while \<open>ball_move\<close> and \<open>bounce_or_lose\<close> leave
  it as it is. The ball that \<open>new_ball\<close> creates has \<open>NUM_BALLS = 3\<close> balls left; after
  \<open>k\<close> serves it has \<open>NUM_BALLS - k\<close>, and after \<open>NUM_BALLS + 1\<close> serves
  \<open>get_balls_left\<close> returns \<open>- 1\<close>. On any court at all, a call of \<open>serve\<close> that returns
  has lowered \<open>get_balls_left\<close> by exactly 1.
\<close>

theorem serve_takes_one_ball:
  assumes "set_up lines cols alloc mem g0 = Running st"
  shows "(\<exists>b g' evs. serve (court st) bp g = Some (b, g', evs)
            \<and> get_balls_left b = get_balls_left bp - 1)
    \<and> get_balls_left (fst (ball_move bp)) = get_balls_left bp
    \<and> (\<exists>rv b g' evs. bounce_or_lose (court st) bp pp g = Some (rv, b, g', evs)
            \<and> get_balls_left b = get_balls_left bp)
    \<and> new_ball mem = Return (ball st) \<and> get_balls_left (ball st) = NUM_BALLS
    \<and> (\<exists>b g'. serves (court st) k (ball st) g = Some (b, g')
            \<and> get_balls_left b = NUM_BALLS - int k)
    \<and> (\<exists>b g'. serves (court st) (nat (NUM_BALLS + 1)) (ball st) g = Some (b, g')
            \<and> get_balls_left b = - 1)
    \<and> (\<forall>c b g' evs. serve c bp g = Some (b, g', evs) \<longrightarrow>
            get_balls_left b = get_balls_left bp - 1)"
proof -
  note i = set_up_interior [OF assms]
  have u: "\<forall>c b g' evs. serve c bp g = Some (b, g', evs) \<longrightarrow>
            get_balls_left b = get_balls_left bp - 1"
    by (simp add: get_balls_left_def serve_remain)
  have a: "\<exists>b g' evs. serve (court st) bp g = Some (b, g', evs)
            \<and> get_balls_left b = get_balls_left bp - 1"
    using serve_range [OF i, of bp g] by (elim exE conjE) (simp add: get_balls_left_def)
  have b: "get_balls_left (fst (ball_move bp)) = get_balls_left bp"
    by (simp add: get_balls_left_def ball_move_remain)
  have c: "\<exists>rv b g' evs. bounce_or_lose (court st) bp pp g = Some (rv, b, g', evs)
            \<and> get_balls_left b = get_balls_left bp"
    using bounce_or_lose_frame [of "court st" bp pp g]
    by (elim exE conjE) (simp add: get_balls_left_def)
  have d: "new_ball mem = Return (ball st) \<and> get_balls_left (ball st) = NUM_BALLS"
    using set_up_Running(7) [OF assms] by (auto simp: new_ball_def get_balls_left_def)
  have e: "\<exists>b g'. serves (court st) k (ball st) g = Some (b, g')
            \<and> get_balls_left b = NUM_BALLS - int k" for k
    using serves_remain [OF i, of k "ball st" g] d
    by (elim exE conjE) (simp add: get_balls_left_def)
  have "NUM_BALLS - int (nat (NUM_BALLS + 1)) = - 1" by (simp add: NUM_BALLS_def)
  with e [of "nat (NUM_BALLS + 1)"]
  have f: "\<exists>b g'. serves (court st) (nat (NUM_BALLS + 1)) (ball st) g = Some (b, g')
            \<and> get_balls_left b = - 1" by simp
  from a b c d e [of k] f u show ?thesis by (intro conjI) simp_all
qed

theorem serve_takes_one_ball_witness:
  "set_up 11 40 True (Some (example_ball 0 0 0)) zeros = Running example_game
   \<and> serve (court example_game) (example_ball 1 20 5) zeros =
       Some (\<lparr>remain = 0, x_pos = 4, y_pos = 4, x_dir = - 1, y_dir = - 1, x_delay = 1,
              y_delay = 1, x_count = 1, y_count = 1, symbol = BALL_SYMBOL\<rparr>, zeros,
             [Mvaddch 4 4 BALL_SYMBOL, Park_cursor, Refresh, Print_balls 2 3 0, Park_cursor, Refresh])
   \<and> get_balls_left (fst (ball_move (example_ball 1 20 5))) = 1
   \<and> new_ball (Some (example_ball 0 0 0)) = Return (ball example_game)
   \<and> get_balls_left (ball example_game) = 3
   \<and> serves (court example_game) 4 (ball example_game) zeros =
       Some (\<lparr>remain = - 1, x_pos = 4, y_pos = 4, x_dir = - 1, y_dir = - 1, x_delay = 1,
              y_delay = 1, x_count = 1, y_count = 1, symbol = BALL_SYMBOL\<rparr>, zeros)"
proof -
  have c: "court example_game = example_court" by (simp add: example_game_def)
  have b: "ball example_game = example_ball 3 0 0" by (simp add: example_game_def)
  have s1: "serve (court example_game) (example_ball 1 20 5) zeros =
       Some (\<lparr>remain = 0, x_pos = 4, y_pos = 4, x_dir = - 1, y_dir = - 1, x_delay = 1,
              y_delay = 1, x_count = 1, y_count = 1, symbol = BALL_SYMBOL\<rparr>, zeros,
             [Mvaddch 4 4 BALL_SYMBOL, Park_cursor, Refresh, Print_balls 2 3 0, Park_cursor, Refresh])"
    by (simp add: c serve_zeros) (simp add: example_ball_def)
  have s4: "serves (court example_game) 4 (ball example_game) zeros =
       Some (\<lparr>remain = - 1, x_pos = 4, y_pos = 4, x_dir = - 1, y_dir = - 1, x_delay = 1,
              y_delay = 1, x_count = 1, y_count = 1, symbol = BALL_SYMBOL\<rparr>, zeros)"
    by (simp add: c b eval_nat_numeral serve_zeros) (simp add: example_ball_def)
  have m: "get_balls_left (fst (ball_move (example_ball 1 20 5))) = 1"
    by (simp add: get_balls_left_def ball_move_remain) (simp add: example_ball_def)
  have n: "new_ball (Some (example_ball 0 0 0)) = Return (ball example_game)"
    by (simp add: new_ball_def b example_ball_def NUM_BALLS_def)
  have l: "get_balls_left (ball example_game) = 3"
    by (simp add: b get_balls_left_def example_ball_def)
  from serve_takes_one_ball [OF set_up_example, of "example_ball 1 20 5" zeros "example_paddle 5 5" 4]
  show ?thesis
    using set_up_example s1 s4 m n l by simp
qed

section \<open>The values a serve can draw\<close>

text \<open>
  C5. In a game that \<open>set_up\<close> has started, every call of \<open>serve\<close> returns, and
  whatever the generator yields the new vertical delay is at least 1 and below
  \<open>MAX_DELAY\<close>, the new horizontal delay at least 1 and below \<open>MAX_DELAY / 2\<close>, the new
  row at least \<open>top + 1\<close> and below \<open>bottom - 1\<close>, the new column at least \<open>left + 1\<close>
  and below \<open>right - 1\<close>: \<open>rand_number\<close> never returns its second argument, so none of
  the upper ends \<open>MAX_DELAY\<close>, \<open>MAX_DELAY / 2\<close>, \<open>bottom - 1\<close> and \<open>right - 1\<close> is drawn.
\<close>

theorem serve_stays_below_upper_ends:
  assumes "set_up lines cols alloc mem g0 = Running st"
  shows "\<exists>b g' evs. serve (court st) bp g = Some (b, g', evs)
     \<and> 1 \<le> y_delay b \<and> y_delay b < MAX_DELAY
     \<and> 1 \<le> x_delay b \<and> x_delay b < c_div MAX_DELAY 2
     \<and> get_top_edge (court st) + 1 \<le> y_pos b \<and> y_pos b < get_bot_edge (court st) - 1
     \<and> get_left_edge (court st) + 1 \<le> x_pos b \<and> x_pos b < get_right_edge (court st) - 1"
  using serve_range [OF set_up_interior [OF assms], of bp g]
  by (elim exE conjE, intro exI conjI) (simp_all add: edge_defs)

theorem serve_stays_below_upper_ends_witness:
  "set_up 11 40 True (Some (example_ball 0 0 0)) zeros = Running example_game
   \<and> serve (court example_game) (example_ball 3 0 0) (rand_of_list [1, 30, 1, 1, 8, 3]) =
       Some (\<lparr>remain = 2, x_pos = 34, y_pos = 5, x_dir = 1, y_dir = 1, x_delay = 4,
              y_delay = 9, x_count = 4, y_count = 9, symbol = BALL_SYMBOL\<rparr>, rand_of_list [],
             [Mvaddch 5 34 BALL_SYMBOL, Park_cursor, Refresh, Print_balls 2 3 2, Park_cursor, Refresh])
   \<and> MAX_DELAY = 10 \<and> c_div MAX_DELAY 2 = 5
   \<and> get_bot_edge (court example_game) - 1 = 6
   \<and> get_right_edge (court example_game) - 1 = 35"
proof -
  have c: "court example_game = example_court" by (simp add: example_game_def)
  have s: "serve (court example_game) (example_ball 3 0 0) (rand_of_list [1, 30, 1, 1, 8, 3]) =
       Some (\<lparr>remain = 2, x_pos = 34, y_pos = 5, x_dir = 1, y_dir = 1, x_delay = 4,
              y_delay = 9, x_count = 4, y_count = 9, symbol = BALL_SYMBOL\<rparr>, rand_of_list [],
             [Mvaddch 5 34 BALL_SYMBOL, Park_cursor, Refresh, Print_balls 2 3 2, Park_cursor, Refresh])"
    by (simp add: c serve_example) (simp add: example_ball_def)
  from serve_stays_below_upper_ends [OF set_up_example, of "example_ball 3 0 0" "rand_of_list [1, 30, 1, 1, 8, 3]"]
  show ?thesis
    using set_up_example s by (simp add: c example_court_def edge_defs MAX_DELAY_def c_div_def)
qed

section \<open>The next round\<close>

text \<open>
  C6. When \<open>bounce_or_lose\<close> returns \<open>LOSE\<close>, \<open>is_next_round\<close> calls \<open>serve\<close> if
  \<open>get_balls_left\<close> is positive, and the game goes on with the ball that \<open>serve\<close>
  returns; otherwise it calls no \<open>serve\<close>: it emits \<open>exit_message\<close>, which prints the
  final time, and \<open>wrap_up\<close>, and ends the process with \<open>exit(0)\<close>. On the court of a
  game that \<open>set_up\<close> has started the call of \<open>serve\<close> returns.
\<close>

theorem next_round_serves_while_balls_remain:
  assumes "bounce_or_lose (court st) (ball st) (paddle st) (rnd st) = Some (LOSE, b, g, evs)"
  shows "is_next_round st =
     (if get_balls_left b > 0 then
        (case serve (court st) b g of
           None \<Rightarrow> Trapped
         | Some (b', g', evs') \<Rightarrow>
             Running (st\<lparr>ball := b', rnd := g', screen := screen st @ evs @ evs'\<rparr>))
      else Exited 0 (screen st @ evs @ exit_message st @ wrap_up))
    \<and> Print_lasted (c_div (LINES st) 2) (c_div (COLS st) 2 - c_div EXIT_MSG_LEN 2)
         (get_mins (clock st)) (get_secs (clock st)) \<in> set (exit_message st)
    \<and> (set_up lines cols alloc mem g0 = Running st0 \<and> court st = court st0 \<longrightarrow>
         (\<exists>b' g' evs'. serve (court st) b g = Some (b', g', evs')))"
proof -
  have "is_next_round st =
     (if get_balls_left b > 0 then
        (case serve (court st) b g of
           None \<Rightarrow> Trapped
         | Some (b', g', evs') \<Rightarrow>
             Running (st\<lparr>ball := b', rnd := g', screen := screen st @ evs @ evs'\<rparr>))
      else Exited 0 (screen st @ evs @ exit_message st @ wrap_up))"
    by (simp add: is_next_round_def assms Let_def exit_message_frame split: option.splits)
  moreover have "Print_lasted (c_div (LINES st) 2) (c_div (COLS st) 2 - c_div EXIT_MSG_LEN 2)
         (get_mins (clock st)) (get_secs (clock st)) \<in> set (exit_message st)"
    by (simp add: exit_message_def Let_def)
  moreover have "\<exists>b' g' evs'. serve (court st) b g = Some (b', g', evs')"
    if "set_up lines cols alloc mem g0 = Running st0" "court st = court st0"
    using serve_range [OF set_up_interior [OF that(1)], of b g] that(2)
    by (elim exE conjE) simp
  ultimately show ?thesis by blast
qed

theorem next_round_serves_while_balls_remain_witness:
  "bounce_or_lose (court (example_game\<lparr>ball := example_ball 2 35 4\<rparr>))
       (ball (example_game\<lparr>ball := example_ball 2 35 4\<rparr>))
       (paddle (example_game\<lparr>ball := example_ball 2 35 4\<rparr>))
       (rnd (example_game\<lparr>ball := example_ball 2 35 4\<rparr>)) =
     Some (LOSE, example_ball 2 35 4, zeros, [Mvaddch 4 35 BLANK])
   \<and> get_balls_left (example_ball 2 35 4) = 2
   \<and> is_next_round (example_game\<lparr>ball := example_ball 2 35 4\<rparr>) =
       Running (example_game
         \<lparr>ball := \<lparr>remain = 1, x_pos = 4, y_pos = 4, x_dir = - 1, y_dir = - 1, x_delay = 1,
                   y_delay = 1, x_count = 1, y_count = 1, symbol = BALL_SYMBOL\<rparr>,
          rnd := zeros,
          screen := screen example_game @ [Mvaddch 4 35 BLANK] @
            [Mvaddch 4 4 BALL_SYMBOL, Park_cursor, Refresh, Print_balls 2 3 1, Park_cursor,
             Refresh]\<rparr>)
   \<and> bounce_or_lose (court (example_game\<lparr>ball := example_ball 0 35 4\<rparr>))
       (ball (example_game\<lparr>ball := example_ball 0 35 4\<rparr>))
       (paddle (example_game\<lparr>ball := example_ball 0 35 4\<rparr>))
       (rnd (example_game\<lparr>ball := example_ball 0 35 4\<rparr>)) =
     Some (LOSE, example_ball 0 35 4, zeros, [Mvaddch 4 35 BLANK])
   \<and> get_balls_left (example_ball 0 35 4) = 0
   \<and> is_next_round (example_game\<lparr>ball := example_ball 0 35 4\<rparr>) =
       Exited 0 (screen example_game @ [Mvaddch 4 35 BLANK] @
         [Standout, Print_lasted 5 12 0 0, Standend, Park_cursor, Refresh, Sleep 2] @
         [Set_ticker 0, Endwin])
   \<and> set_up 11 40 True (Some (example_ball 0 0 0)) zeros = Running example_game
   \<and> court (example_game\<lparr>ball := example_ball 2 35 4\<rparr>) = court example_game"
proof -
  have f: "court example_game = example_court" "paddle example_game = example_paddle 5 5"
    "rnd example_game = zeros" "LINES example_game = 11" "COLS example_game = 40"
    "clock example_game = clock_init"
    by (simp_all add: example_game_def)
  have l2: "bounce_or_lose (court (example_game\<lparr>ball := example_ball 2 35 4\<rparr>))
       (ball (example_game\<lparr>ball := example_ball 2 35 4\<rparr>))
       (paddle (example_game\<lparr>ball := example_ball 2 35 4\<rparr>))
       (rnd (example_game\<lparr>ball := example_ball 2 35 4\<rparr>)) =
     Some (LOSE, example_ball 2 35 4, zeros, [Mvaddch 4 35 BLANK])"
    by (simp add: f lose_example)
  have l0: "bounce_or_lose (court (example_game\<lparr>ball := example_ball 0 35 4\<rparr>))
       (ball (example_game\<lparr>ball := example_ball 0 35 4\<rparr>))
       (paddle (example_game\<lparr>ball := example_ball 0 35 4\<rparr>))
       (rnd (example_game\<lparr>ball := example_ball 0 35 4\<rparr>)) =
     Some (LOSE, example_ball 0 35 4, zeros, [Mvaddch 4 35 BLANK])"
    by (simp add: f lose_example)
  have s: "serve example_court (example_ball 2 35 4) zeros =
     Some (\<lparr>remain = 1, x_pos = 4, y_pos = 4, x_dir = - 1, y_dir = - 1, x_delay = 1,
                   y_delay = 1, x_count = 1, y_count = 1, symbol = BALL_SYMBOL\<rparr>, zeros,
           [Mvaddch 4 4 BALL_SYMBOL, Park_cursor, Refresh, Print_balls 2 3 1, Park_cursor,
             Refresh])"
    by (simp add: serve_zeros) (simp add: example_ball_def)
  have e: "exit_message (example_game\<lparr>ball := example_ball 0 35 4\<rparr>) =
      [Standout, Print_lasted 5 12 0 0, Standend, Park_cursor, Refresh, Sleep 2]"
    by (simp add: exit_message_def f c_div_def EXIT_MSG_LEN_def get_mins_def get_secs_def
        clock_init_def)
  have g: "get_balls_left (example_ball 2 35 4) = 2" "get_balls_left (example_ball 0 35 4) = 0"
    by (simp_all add: get_balls_left_def example_ball_def)
  from next_round_serves_while_balls_remain [OF l2, of 11 40 True "Some (example_ball 0 0 0)" zeros example_game]
    next_round_serves_while_balls_remain [OF l0, of 11 40 True "Some (example_ball 0 0 0)" zeros example_game]
  show ?thesis
    using l2 l0 g set_up_example by (simp add: f s e wrap_up_def)
qed

section \<open>A ball served next to a wall can leave the court\<close>

text \<open>
  C8. On a terminal of 11 lines and 40 columns the court has its top wall on row 3.
  When the generator yields 0, 16, 0, 3, 0, 0, \<open>serve\<close> puts the ball on row 4, next to
  the top wall, moving up with delay 1, which is inside the court. At the first alarm
  \<open>ball_move\<close> moves it to row 3, the row of the wall, and \<open>bounce_or_lose\<close>, which
  tests for row 4 only, returns \<open>NO_CONTACT\<close> and leaves the direction: between the
  moves the ball is not strictly inside the court. The second alarm moves it to row 2,
  above the court.
\<close>

theorem served_ball_leaves_court:
  "main 11 40 True (Some (example_ball 0 0 0)) (rand_of_list [0, 16, 0, 3, 0, 0]) [] =
     Running (example_game
       \<lparr>ball := \<lparr>remain = 2, x_pos = 20, y_pos = 4, x_dir = 1, y_dir = - 1, x_delay = 1,
                 y_delay = 1, x_count = 1, y_count = 1, symbol = BALL_SYMBOL\<rparr>,
        rnd := rand_of_list [],
        screen := screen example_game @
          [Mvaddch 4 20 BALL_SYMBOL, Park_cursor, Refresh, Print_balls 2 3 2, Park_cursor,
           Refresh]\<rparr>)
   \<and> inside_court example_court
       \<lparr>remain = 2, x_pos = 20, y_pos = 4, x_dir = 1, y_dir = - 1, x_delay = 1,
        y_delay = 1, x_count = 1, y_count = 1, symbol = BALL_SYMBOL\<rparr>
   \<and> main 11 40 True (Some (example_ball 0 0 0)) (rand_of_list [0, 16, 0, 3, 0, 0]) [Alarm] =
     Running (example_game
       \<lparr>clock := \<lparr>mins = 0, secs = 0, ticks = 1\<rparr>,
        ball := \<lparr>remain = 2, x_pos = 21, y_pos = 3, x_dir = 1, y_dir = - 1, x_delay = 1,
                 y_delay = 1, x_count = 1, y_count = 1, symbol = BALL_SYMBOL\<rparr>,
        rnd := rand_of_list [],
        screen := screen example_game @
          [Mvaddch 4 20 BALL_SYMBOL, Park_cursor, Refresh, Print_balls 2 3 2, Park_cursor,
           Refresh] @
          [Mvaddch 4 20 BLANK, Mvaddch 3 21 BALL_SYMBOL, Park_cursor, Refresh]\<rparr>)
   \<and> \<not> inside_court example_court
       \<lparr>remain = 2, x_pos = 21, y_pos = 3, x_dir = 1, y_dir = - 1, x_delay = 1,
        y_delay = 1, x_count = 1, y_count = 1, symbol = BALL_SYMBOL\<rparr>
   \<and> get_top_edge example_court = 3
   \<and> main 11 40 True (Some (example_ball 0 0 0)) (rand_of_list [0, 16, 0, 3, 0, 0])
         [Alarm, Alarm] =
     Running (example_game
       \<lparr>clock := \<lparr>mins = 0, secs = 0, ticks = 2\<rparr>,
        ball := \<lparr>remain = 2, x_pos = 22, y_pos = 2, x_dir = 1, y_dir = - 1, x_delay = 1,
                 y_delay = 1, x_count = 1, y_count = 1, symbol = BALL_SYMBOL\<rparr>,
        rnd := rand_of_list [],
        screen := screen example_game @
          [Mvaddch 4 20 BALL_SYMBOL, Park_cursor, Refresh, Print_balls 2 3 2, Park_cursor,
           Refresh] @
          [Mvaddch 4 20 BLANK, Mvaddch 3 21 BALL_SYMBOL, Park_cursor, Refresh] @
          [Mvaddch 3 21 BLANK, Mvaddch 2 22 BALL_SYMBOL, Park_cursor, Refresh]\<rparr>)"
proof -
  let ?g = "rand_of_list [0, 16, 0, 3, 0, 0]"
  let ?b0 = "\<lparr>remain = 2, x_pos = 20, y_pos = 4, x_dir = 1, y_dir = - 1, x_delay = 1,
       y_delay = 1, x_count = 1, y_count = 1, symbol = BALL_SYMBOL\<rparr>"
  let ?b1 = "\<lparr>remain = 2, x_pos = 21, y_pos = 3, x_dir = 1, y_dir = - 1, x_delay = 1,
       y_delay = 1, x_count = 1, y_count = 1, symbol = BALL_SYMBOL\<rparr>"
  let ?b2 = "\<lparr>remain = 2, x_pos = 22, y_pos = 2, x_dir = 1, y_dir = - 1, x_delay = 1,
       y_delay = 1, x_count = 1, y_count = 1, symbol = BALL_SYMBOL\<rparr>"
  let ?served = "[Mvaddch 4 20 BALL_SYMBOL, Park_cursor, Refresh, Print_balls 2 3 2,
       Park_cursor, Refresh]"
  have f: "court example_game = example_court" "paddle example_game = example_paddle 5 5"
    "ball example_game = example_ball 3 0 0" "clock example_game = clock_init"
    by (simp_all add: example_game_def)
  have s: "serve example_court (example_ball 3 0 0) ?g = Some (?b0, rand_of_list [], ?served)"
    by (simp add: serve_example) (simp add: example_ball_def)
  have t: "clock_tick example_court clock_init = (\<lparr>mins = 0, secs = 0, ticks = 1\<rparr>, [])"
    "clock_tick example_court \<lparr>mins = 0, secs = 0, ticks = 1\<rparr> =
       (\<lparr>mins = 0, secs = 0, ticks = 2\<rparr>, [])"
    by (simp_all add: clock_tick_def clock_init_def TICKS_PER_SEC_def)
  have b: "ball_move ?b0 =
      (?b1, [Mvaddch 4 20 BLANK, Mvaddch 3 21 BALL_SYMBOL, Park_cursor, Refresh])"
    "ball_move ?b1 =
      (?b2, [Mvaddch 3 21 BLANK, Mvaddch 2 22 BALL_SYMBOL, Park_cursor, Refresh])"
    by (simp_all add: ball_move_def draw_ball_def)
  have c: "bounce_or_lose example_court ?b1 (example_paddle 5 5) g = Some (NO_CONTACT, ?b1, g, [])"
    "bounce_or_lose example_court ?b2 (example_paddle 5 5) g = Some (NO_CONTACT, ?b2, g, [])"
    for g
    by (simp_all add: bounce_or_lose_def example_court_def edge_defs)
  have m0: "main 11 40 True (Some (example_ball 0 0 0)) ?g [] =
     Running (example_game\<lparr>ball := ?b0, rnd := rand_of_list [],
        screen := screen example_game @ ?served\<rparr>)"
    by (simp add: main_def set_up_example_rnd f s get_balls_left_def)
  have m1: "main 11 40 True (Some (example_ball 0 0 0)) ?g [Alarm] =
     Running (example_game\<lparr>clock := \<lparr>mins = 0, secs = 0, ticks = 1\<rparr>, ball := ?b1,
        rnd := rand_of_list [],
        screen := screen example_game @ ?served @
          [Mvaddch 4 20 BLANK, Mvaddch 3 21 BALL_SYMBOL, Park_cursor, Refresh]\<rparr>)"
    by (simp add: main_def set_up_example_rnd f s get_balls_left_def alarm_handler_def t b
        is_next_round_def c LOSE_def NO_CONTACT_def)
  have m2: "main 11 40 True (Some (example_ball 0 0 0)) ?g [Alarm, Alarm] =
     Running (example_game\<lparr>clock := \<lparr>mins = 0, secs = 0, ticks = 2\<rparr>, ball := ?b2,
        rnd := rand_of_list [],
        screen := screen example_game @ ?served @
          [Mvaddch 4 20 BLANK, Mvaddch 3 21 BALL_SYMBOL, Park_cursor, Refresh] @
          [Mvaddch 3 21 BLANK, Mvaddch 2 22 BALL_SYMBOL, Park_cursor, Refresh]\<rparr>)"
    by (simp add: main_def set_up_example_rnd f s get_balls_left_def alarm_handler_def t b
        is_next_round_def c LOSE_def NO_CONTACT_def)
  have i: "inside_court example_court ?b0" "\<not> inside_court example_court ?b1"
    "get_top_edge example_court = 3"
    by (simp_all add: inside_court_def example_court_def edge_defs)
  from m0 m1 m2 i show ?thesis by simp
qed

end
